theory Spec2Isabelle
  imports Main
begin

section \<open>Package cluster: the declarations and the process-wide singleton\<close>

text \<open>
  The Go file of package \<open>cluster\<close> declares \<open>Config\<close>, \<open>NodeEntry\<close>, \<open>Database\<close>, the
  interfaces \<open>ClusterListener\<close> and \<open>Cluster\<close>, the package variable \<open>inst\<close> and the three
  package-level functions \<open>New\<close>, \<open>Start\<close> and \<open>Inst\<close>.

  A Go \<open>error\<close> is modelled by its message (\<open>errors.New\<close>, \<open>fmt.Errorf\<close>); the nil
  error is \<open>None\<close> of \<open>error option\<close>.
\<close>

datatype error = Error string

record Config =
  ClusterId :: string
  NodeId :: string

record NodeEntry =
  Id :: string
  Ip :: string

text \<open>
  \<open>api.Status\<close> is declared outside the sources, so the type of the \<open>Status\<close> field is a
  parameter. A Go map is a partial function.
\<close>

record 'st Database =
  Status :: 'st
  Id :: string
  NodeEntries :: "string \<rightharpoonup> NodeEntry"

text \<open>
  The interface \<open>ClusterListener\<close>: a listener is the record of its methods, in the order
  the interface declares them. \<open>api.Node\<close> is declared outside the sources, so the node
  type is a parameter. A method's result is the \<open>error\<close> it returns.
\<close>

record ('node, 'st) ClusterListener =
  String :: string
  ClusterInit :: "'node \<Rightarrow> 'st Database \<Rightarrow> error option"
  Init :: "'node \<Rightarrow> 'st Database \<Rightarrow> error option"
  Join :: "'node \<Rightarrow> 'st Database \<Rightarrow> error option"
  Add :: "'node \<Rightarrow> error option"
  Remove :: "'node \<Rightarrow> error option"
  Update :: "'node \<Rightarrow> error option"
  Leave :: "'node \<Rightarrow> error option"

text \<open>
  The struct \<open>ClusterManager\<close> is declared in a file that is not among the sources; the
  literal \<open>&ClusterManager{config: cfg, kv: kv}\<close> in \<open>New\<close> shows its fields \<open>config\<close> and
  \<open>kv\<close>. Its remaining fields live in the record's extension, which the literal leaves at
  their zero value.
\<close>

record 'kv ClusterManager =
  config :: Config
  kv :: 'kv

text \<open>
  \<open>inst\<close> is a pointer. Pointers are addresses into a heap of manager objects, \<open>brk\<close> is the
  next address the allocator hands out, and \<open>world\<close> is everything outside the manager
  object that a method of the manager acts on (the key-value store, the network, the
  listeners).
\<close>

type_synonym ptr = nat

record ('m, 'w) package =
  inst :: "ptr option"
  heap :: "ptr \<Rightarrow> 'm"
  brk :: ptr
  world :: 'w

text \<open>
  The methods \<open>(*ClusterManager).Init\<close> and \<open>(*ClusterManager).Start\<close> are not among the
  sources. They are parameters: a method takes its receiver and the world and returns its
  error result, the receiver as it left it and the world as it left it. \<open>invoke\<close> is the call
  \<open>p.method()\<close> through a pointer.
\<close>

type_synonym ('m, 'w) meth = "'m \<Rightarrow> 'w \<Rightarrow> error option \<times> 'm \<times> 'w"

definition invoke ::
  "('m, 'w) meth \<Rightarrow> ptr \<Rightarrow> ('m, 'w) package \<Rightarrow> error option \<times> ('m, 'w) package" where
  "invoke mth p s =
     (case mth (heap s p) (world s) of
        (err, m, w) \<Rightarrow> (err, s\<lparr>heap := (heap s)(p := m), world := w\<rparr>))"

definition not_initialized :: error where
  "not_initialized = Error ''Cluster is not initialized.''"

text \<open>
  \<^verbatim>\<open>
  func New(cfg Config, kv kvdb.Kvdb) (*ClusterManager, error) {
      inst = &ClusterManager{config: cfg, kv: kv}
      err := inst.Init()
      if err != nil { inst = nil; return nil, err }
      return inst, nil
  }\<close>
  \<open>z\<close> is the zero value of the fields the literal does not name.
\<close>

definition New ::
  "'z \<Rightarrow> (('kv, 'z) ClusterManager_scheme, 'w) meth \<Rightarrow> Config \<Rightarrow> 'kv \<Rightarrow>
   (('kv, 'z) ClusterManager_scheme, 'w) package \<Rightarrow>
   (ptr option \<times> error option) \<times> (('kv, 'z) ClusterManager_scheme, 'w) package" where
  "New z mInit cfg k s =
     (let p = brk s;
          s1 = s\<lparr>inst := Some p,
                 heap := (heap s)(p := \<lparr>config = cfg, kv = k, \<dots> = z\<rparr>),
                 brk := Suc p\<rparr>
      in case invoke mInit p s1 of
           (Some e, s2) \<Rightarrow> ((None, Some e), s2\<lparr>inst := None\<rparr>)
         | (None, s2) \<Rightarrow> ((inst s2, None), s2))"

text \<open>
  \<^verbatim>\<open>
  func Start() error {
      if inst == nil { return errors.New("Cluster is not initialized.") }
      err := inst.Start()
      if err != nil { inst = nil; return err }
      return nil
  }\<close>
\<close>

definition Start ::
  "('m, 'w) meth \<Rightarrow> ('m, 'w) package \<Rightarrow> error option \<times> ('m, 'w) package" where
  "Start mStart s =
     (case inst s of
        None \<Rightarrow> (Some not_initialized, s)
      | Some p \<Rightarrow>
          (case invoke mStart p s of
             (Some e, s1) \<Rightarrow> (Some e, s1\<lparr>inst := None\<rparr>)
           | (None, s1) \<Rightarrow> (None, s1)))"

text \<open>
  \<^verbatim>\<open>
  func Inst() (*ClusterManager, error) {
      if inst == nil { return nil, errors.New("Cluster is not initialized.") }
      return inst, nil
  }\<close>
  \<open>Inst\<close> only reads the package variable.
\<close>

definition Inst :: "('m, 'w) package \<Rightarrow> ptr option \<times> error option" where
  "Inst s =
     (case inst s of
        None \<Rightarrow> (None, Some not_initialized)
      | Some p \<Rightarrow> (Some p, None))"

text \<open>
  A caller's later use of the package: any sequence of calls of the package-level \<open>Start\<close>
  and \<open>Inst\<close>. \<open>run\<close> performs them in order and collects the error each call returned.
\<close>

datatype call = CallStart | CallInst

fun run ::
  "('m, 'w) meth \<Rightarrow> call list \<Rightarrow> ('m, 'w) package \<Rightarrow> error option list \<times> ('m, 'w) package" where
  "run mStart [] s = ([], s)"
| "run mStart (CallStart # cs) s =
     (case Start mStart s of
        (e, s1) \<Rightarrow> (case run mStart cs s1 of (es, s2) \<Rightarrow> (e # es, s2)))"
| "run mStart (CallInst # cs) s =
     (case run mStart cs s of (es, s2) \<Rightarrow> (snd (Inst s) # es, s2))"

subsection \<open>A concrete instance\<close>

text \<open>
  For evaluating the package at concrete inputs: a world that counts the cluster
  operations performed, a manager without further fields, and methods that perform one
  operation and then succeed or fail.
\<close>

definition count_ok :: "(unit ClusterManager, nat) meth" where
  "count_ok m w = (None, m, Suc w)"

definition count_fail :: "(unit ClusterManager, nat) meth" where
  "count_fail m w = (Some (Error ''store unavailable''), m, Suc w)"

definition cfg1 :: Config where
  "cfg1 = \<lparr>ClusterId = ''c1'', NodeId = ''n1''\<rparr>"

definition fresh_package :: "(unit ClusterManager, nat) package" where
  "fresh_package =
     \<lparr>inst = None, heap = (\<lambda>_. \<lparr>config = \<lparr>ClusterId = [], NodeId = []\<rparr>, kv = ()\<rparr>),
      brk = 0, world = 0\<rparr>"

section \<open>Package btrfs: the driver's Create\<close>

text \<open>
  The driver file imports package \<open>api\<close> (\<open>VolumeSpec\<close>, \<open>Volume\<close>, \<open>VolumeID\<close>, the constants
  \<open>FsBtrfs\<close>, \<open>BadVolumeID\<close>, \<open>VolumeAvailable\<close>), the volume enumerator (\<open>CreateVol\<close>,
  \<open>UpdateVol\<close>), docker's btrfs graph driver and the command \<open>uuidgen\<close>; none of them is
  among the sources. The types \<open>api.VolumeID\<close> and \<open>api.Filesystem\<close> are string types (the
  driver converts and compares them with string literals). Of \<open>VolumeSpec\<close> and \<open>Volume\<close>
  the records hold the fields the driver reads or writes.
\<close>

record VolumeSpec =
  Format :: string

record ('loc, 'spec, 'state) Volume =
  ID :: string
  Locator :: 'loc
  Ctime :: nat
  Spec :: 'spec
  LastScan :: nat
  Format :: string
  State :: 'state
  DevicePath :: string

text \<open>
  What the driver file uses and does not define is a parameter of the model: the three
  constants of package \<open>api\<close>, and the operations with an effect, each a function on a
  world \<open>'w\<close> (the process table, the clock, the key-value store behind the enumerator and
  the btrfs filesystem) that returns its Go results and the world after it.
  \<open>uuidgen\<close> is \<open>exec.Command("uuidgen").Output()\<close>, \<open>btrfs_Create\<close> and \<open>btrfs_Get\<close> are
  \<open>d.btrfs.Create\<close> and \<open>d.btrfs.Get\<close>. \<open>CreateVol\<close> and \<open>UpdateVol\<close> receive the volume
  through a pointer; the model hands them its value.
\<close>

record ('loc, 'spec, 'state, 'w) deps =
  FsBtrfs :: string
  BadVolumeID :: string
  VolumeAvailable :: 'state
  uuidgen :: "'w \<Rightarrow> (error + string) \<times> 'w"
  time_Now :: "'w \<Rightarrow> nat \<times> 'w"
  CreateVol :: "('loc, 'spec, 'state) Volume \<Rightarrow> 'w \<Rightarrow> error option \<times> 'w"
  btrfs_Create :: "string \<Rightarrow> string \<Rightarrow> 'w \<Rightarrow> error option \<times> 'w"
  btrfs_Get :: "string \<Rightarrow> string \<Rightarrow> 'w \<Rightarrow> (string \<times> error option) \<times> 'w"
  UpdateVol :: "('loc, 'spec, 'state) Volume \<Rightarrow> 'w \<Rightarrow> error option \<times> 'w"

text \<open>
  \<open>strings.TrimSuffix\<close> of Go's library: \<open>s\<close> without the suffix when it ends with it.
\<close>

definition TrimSuffix :: "string \<Rightarrow> string \<Rightarrow> string" where
  "TrimSuffix s suffix =
     (if length suffix \<le> length s \<and> drop (length s - length suffix) s = suffix
      then take (length s - length suffix) s else s)"

text \<open>
  \<^verbatim>\<open>
  func uuid() (string, error) {
      out, err := exec.Command("uuidgen").Output()
      if err != nil { return "", err }
      id := string(out)
      id = strings.TrimSuffix(id, "\n")
      return id, nil
  }\<close>
\<close>

definition uuid :: "('loc, 'spec, 'state, 'w) deps \<Rightarrow> 'w \<Rightarrow> (string \<times> error option) \<times> 'w" where
  "uuid d w =
     (case uuidgen d w of
        (Inl err, w1) \<Rightarrow> (([], Some err), w1)
      | (Inr out, w1) \<Rightarrow> ((TrimSuffix out [CHR 0x0A], None), w1))"

text \<open>
  \<open>fmt.Errorf("Filesystem format (%v) must be %v", spec.Format, api.FsBtrfs)\<close>.
\<close>

definition format_error :: "string \<Rightarrow> string \<Rightarrow> error" where
  "format_error fmt want = Error (''Filesystem format ('' @ fmt @ '') must be '' @ want)"

text \<open>
  \<^verbatim>\<open>
  func (d *btrfsDriver) Create(locator api.VolumeLocator, options *api.CreateOptions,
      spec *api.VolumeSpec) (api.VolumeID, error) {
      if spec.Format != api.FsBtrfs && spec.Format != "" {
          return api.BadVolumeID, fmt.Errorf("Filesystem format (%v) must be %v",
              spec.Format, api.FsBtrfs)
      }
      volumeID, err := uuid()
      if err != nil { return api.BadVolumeID, err }
      v := &api.Volume{ID: api.VolumeID(volumeID), Locator: locator, Ctime: time.Now(),
          Spec: spec, LastScan: time.Now(), Format: api.FsBtrfs, State: api.VolumeAvailable}
      err = d.CreateVol(v)
      if err != nil { return api.BadVolumeID, err }
      err = d.btrfs.Create(volumeID, "")
      if err != nil { return api.BadVolumeID, err }
      v.DevicePath, err = d.btrfs.Get(volumeID, "")
      if err != nil { return v.ID, err }
      err = d.UpdateVol(v)
      return v.ID, err
  }\<close>
  \<open>spec\<close> is a pointer: \<open>None\<close> is the nil pointer, and reading \<open>spec.Format\<close> through it
  panics, which is the result \<open>None\<close> of the model. Otherwise the result is the pair the
  function returns and the world after the call.
\<close>

definition Create ::
  "('loc, 'x VolumeSpec_scheme, 'state, 'w) deps \<Rightarrow> 'loc \<Rightarrow> 'opt \<Rightarrow>
   'x VolumeSpec_scheme option \<Rightarrow> 'w \<Rightarrow> ((string \<times> error option) \<times> 'w) option" where
  "Create d locator options spec w =
     (case spec of
        None \<Rightarrow> None
      | Some sp \<Rightarrow> Some
         (if VolumeSpec.Format sp \<noteq> FsBtrfs d \<and> VolumeSpec.Format sp \<noteq> []
          then ((BadVolumeID d, Some (format_error (VolumeSpec.Format sp) (FsBtrfs d))), w)
          else
            (case uuid d w of
               ((volumeID, Some err), w1) \<Rightarrow> ((BadVolumeID d, Some err), w1)
             | ((volumeID, None), w1) \<Rightarrow>
                 (case time_Now d w1 of (t1, w2) \<Rightarrow>
                 (case time_Now d w2 of (t2, w3) \<Rightarrow>
                 (let v = \<lparr>ID = volumeID, Locator = locator, Ctime = t1, Spec = sp,
                           LastScan = t2, Format = FsBtrfs d, State = VolumeAvailable d,
                           DevicePath = []\<rparr>
                  in (case CreateVol d v w3 of
                       (Some err, w4) \<Rightarrow> ((BadVolumeID d, Some err), w4)
                     | (None, w4) \<Rightarrow>
                         (case btrfs_Create d volumeID [] w4 of
                            (Some err, w5) \<Rightarrow> ((BadVolumeID d, Some err), w5)
                          | (None, w5) \<Rightarrow>
                              (case btrfs_Get d volumeID [] w5 of
                                 ((path, err), w6) \<Rightarrow>
                                   (let v' = v\<lparr>DevicePath := path\<rparr>
                                    in (case err of
                                         Some e \<Rightarrow> ((ID v', Some e), w6)
                                       | None \<Rightarrow>
                                           (case UpdateVol d v' w6 of
                                              (err', w7) \<Rightarrow> ((ID v', err'), w7)))))))))))))"

subsection \<open>A concrete instance\<close>

text \<open>
  A world that is the log of the operations performed, oldest first, and dependencies that
  all succeed.
\<close>

definition logging_deps :: "(unit, VolumeSpec, nat, string list) deps" where
  "logging_deps =
     \<lparr>FsBtrfs = ''btrfs'', BadVolumeID = [], VolumeAvailable = 0,
      uuidgen = (\<lambda>w. (Inr (''6fa459ea'' @ [CHR 0x0A]), w @ [''uuidgen''])),
      time_Now = (\<lambda>w. (7, w @ [''time.Now''])),
      CreateVol = (\<lambda>v w. (None, w @ [''CreateVol''])),
      btrfs_Create = (\<lambda>i p w. (None, w @ [''btrfs.Create''])),
      btrfs_Get = (\<lambda>i p w. ((''/btrfs/'' @ i, None), w @ [''btrfs.Get''])),
      UpdateVol = (\<lambda>v w. (None, w @ [''UpdateVol'']))\<rparr>"

section \<open>The listener registry and the manager's Start, after the specification\<close>

text \<open>
  The sources hold the interface of the cluster manager and not its implementation: the
  listener registry, the manager's \<open>Start\<close> method and the forwarding of membership
  events are described by the specification (sections 4.3 and 4.4) only. The definitions
  of this section follow its sentences.
\<close>

text \<open>
  Modelled from the spec: the events the registry dispatches (the implementation of the
  dispatch is missing). The setup events are \<open>ClusterInit\<close>, \<open>Init\<close> and \<open>Join\<close>, the
  steady-state membership events are \<open>Add\<close>, \<open>Update\<close>, \<open>Remove\<close> and \<open>Leave\<close>, each with
  its node.
\<close>

datatype setup_event = EvClusterInit | EvInit | EvJoin

datatype 'node member_event = EvAdd 'node | EvUpdate 'node | EvRemove 'node | EvLeave 'node

datatype 'node event = Setup setup_event | Member "'node member_event"

text \<open>
  Modelled from the spec: delivering a setup event to a listener is the call of the
  listener's method of that name with \<open>self\<close> and the database (section 6).
\<close>

fun setup_call ::
  "'node \<Rightarrow> 'st Database \<Rightarrow> setup_event \<Rightarrow> ('node, 'st) ClusterListener \<Rightarrow> error option" where
  "setup_call me d EvClusterInit l = ClusterInit l me d"
| "setup_call me d EvInit l = Init l me d"
| "setup_call me d EvJoin l = Join l me d"

text \<open>
  Modelled from the spec: delivering a membership event to a listener is the call of the
  listener's method of that name with the node (section 6).
\<close>

fun member_call :: "'node member_event \<Rightarrow> ('node, 'st) ClusterListener \<Rightarrow> error option" where
  "member_call (EvAdd n) l = Add l n"
| "member_call (EvUpdate n) l = Update l n"
| "member_call (EvRemove n) l = Remove l n"
| "member_call (EvLeave n) l = Leave l n"

text \<open>
  Modelled from the spec: the ListenerRegistry (its implementation is missing), "ordered
  collection of registered ClusterListeners". \<open>listeners\<close> is the ordered list;
  \<open>delivered\<close> is the record of the callbacks invoked so far, oldest first, each the
  listener's identity string and the event; \<open>failures\<close> is the log of the errors that
  listeners returned for steady-state events ("a listener error is recorded and logged").
\<close>

record ('node, 'st) ListenerRegistry =
  listeners :: "('node, 'st) ClusterListener list"
  delivered :: "(string \<times> 'node event) list"
  failures :: "(string \<times> 'node member_event \<times> error) list"

datatype registry_error = DuplicateListener

text \<open>
  Modelled from the spec: \<open>Register(listener)\<close> of the missing registry, "appends to the
  ordered list; fails with DuplicateListener if a listener with the same identity string
  is already registered".
\<close>

definition Register ::
  "('node, 'st) ClusterListener \<Rightarrow> ('node, 'st) ListenerRegistry \<Rightarrow>
   registry_error + ('node, 'st) ListenerRegistry" where
  "Register l r =
     (if String l \<in> set (map String (listeners r)) then Inl DuplicateListener
      else Inr (r\<lparr>listeners := listeners r @ [l]\<rparr>))"

text \<open>
  Modelled from the spec: the dispatch of a setup event by the missing registry, "in
  registration order ...; the first listener to return an error aborts the remaining
  dispatch". The result is the first error, if any, and the registry with the invoked
  callbacks recorded.
\<close>

fun dispatch_setup ::
  "'node \<Rightarrow> 'st Database \<Rightarrow> setup_event \<Rightarrow> ('node, 'st) ClusterListener list \<Rightarrow>
   ('node, 'st) ListenerRegistry \<Rightarrow> error option \<times> ('node, 'st) ListenerRegistry" where
  "dispatch_setup me d ev [] r = (None, r)"
| "dispatch_setup me d ev (l # ls) r =
     (let r1 = r\<lparr>delivered := delivered r @ [(String l, Setup ev)]\<rparr>
      in case setup_call me d ev l of
           Some e \<Rightarrow> (Some e, r1)
         | None \<Rightarrow> dispatch_setup me d ev ls r1)"

text \<open>
  Modelled from the spec: \<open>DispatchClusterInit(self, db)\<close>, \<open>DispatchInit(self, db)\<close> and
  \<open>DispatchJoin(self, db)\<close> of the missing registry.
\<close>

definition DispatchClusterInit ::
  "'node \<Rightarrow> 'st Database \<Rightarrow> ('node, 'st) ListenerRegistry \<Rightarrow>
   error option \<times> ('node, 'st) ListenerRegistry" where
  "DispatchClusterInit me d r = dispatch_setup me d EvClusterInit (listeners r) r"

definition DispatchInit ::
  "'node \<Rightarrow> 'st Database \<Rightarrow> ('node, 'st) ListenerRegistry \<Rightarrow>
   error option \<times> ('node, 'st) ListenerRegistry" where
  "DispatchInit me d r = dispatch_setup me d EvInit (listeners r) r"

definition DispatchJoin ::
  "'node \<Rightarrow> 'st Database \<Rightarrow> ('node, 'st) ListenerRegistry \<Rightarrow>
   error option \<times> ('node, 'st) ListenerRegistry" where
  "DispatchJoin me d r = dispatch_setup me d EvJoin (listeners r) r"

text \<open>
  Modelled from the spec: the dispatch of a steady-state membership event by the missing
  registry to the listeners of a list, in the order of the list: "a listener error is
  recorded and logged but does NOT block dispatch to remaining listeners".
\<close>

fun dispatch_member ::
  "'node member_event \<Rightarrow> ('node, 'st) ClusterListener list \<Rightarrow>
   ('node, 'st) ListenerRegistry \<Rightarrow> ('node, 'st) ListenerRegistry" where
  "dispatch_member ev [] r = r"
| "dispatch_member ev (l # ls) r =
     dispatch_member ev ls
       (r\<lparr>delivered := delivered r @ [(String l, Member ev)],
          failures := (case member_call ev l of
                         None \<Rightarrow> failures r
                       | Some e \<Rightarrow> failures r @ [(String l, ev, e)])\<rparr>)"

text \<open>
  Modelled from the spec: \<open>DispatchAdd\<close>, \<open>DispatchUpdate\<close>, \<open>DispatchRemove\<close> and
  \<open>DispatchLeave\<close> of the missing registry: "in registration order for Add/Update, reverse
  order for Leave"; "insertion order is dispatch order for every event type except
  teardown (Leave)", so \<open>Remove\<close> goes in registration order.
\<close>

definition DispatchAdd ::
  "'node \<Rightarrow> ('node, 'st) ListenerRegistry \<Rightarrow> ('node, 'st) ListenerRegistry" where
  "DispatchAdd n r = dispatch_member (EvAdd n) (listeners r) r"

definition DispatchUpdate ::
  "'node \<Rightarrow> ('node, 'st) ListenerRegistry \<Rightarrow> ('node, 'st) ListenerRegistry" where
  "DispatchUpdate n r = dispatch_member (EvUpdate n) (listeners r) r"

definition DispatchRemove ::
  "'node \<Rightarrow> ('node, 'st) ListenerRegistry \<Rightarrow> ('node, 'st) ListenerRegistry" where
  "DispatchRemove n r = dispatch_member (EvRemove n) (listeners r) r"

definition DispatchLeave ::
  "'node \<Rightarrow> ('node, 'st) ListenerRegistry \<Rightarrow> ('node, 'st) ListenerRegistry" where
  "DispatchLeave n r = dispatch_member (EvLeave n) (rev (listeners r)) r"

text \<open>
  Modelled from the spec: the MembershipTracker as far as \<open>Start\<close> touches it (its
  implementation is missing): the peers it was seeded with and whether its heartbeat and
  watch loops have been started.
\<close>

record MembershipTracker =
  seeded :: "string \<rightharpoonup> NodeEntry"
  running :: bool

text \<open>
  Modelled from the spec: the fields of the manager that section 4.4 speaks of and the
  struct literal in \<open>New\<close> does not show (the struct's declaration is missing): this node
  and its own entry, whether \<open>Init\<close> made it the bootstrap leader, the local persisted
  record of having joined this cluster before, the database \<open>Init\<close> recorded, the
  registry and the tracker.
\<close>

record ('kv, 'node, 'st) Manager = "'kv ClusterManager" +
  self :: 'node
  self_entry :: NodeEntry
  leader :: bool
  joined_before :: bool
  db :: "'st Database"
  registry :: "('node, 'st) ListenerRegistry"
  tracker :: MembershipTracker

text \<open>
  Modelled from the spec: steps 1 to 3 of \<open>Start()\<close> (the method is missing). "If
  bootstrap leader: call DispatchClusterInit(self, db). On success, proceed as a normal
  member (step 3)", step 3 being \<open>DispatchJoin\<close>; "If first-time joiner ...: call
  DispatchInit(self, db)"; "If rejoining after a restart: call DispatchJoin(self, db)".
\<close>

definition setup_phase ::
  "('kv, 'node, 'st) Manager \<Rightarrow> error option \<times> ('node, 'st) ListenerRegistry" where
  "setup_phase m =
     (if leader m then
        (case DispatchClusterInit (self m) (db m) (registry m) of
           (Some e, r) \<Rightarrow> (Some e, r)
         | (None, r) \<Rightarrow> DispatchJoin (self m) (db m) r)
      else if \<not> joined_before m then DispatchInit (self m) (db m) (registry m)
      else DispatchJoin (self m) (db m) (registry m))"

text \<open>
  Modelled from the spec: \<open>Start()\<close> of the manager (the method is missing), a method in
  the sense of \<open>meth\<close> whose world is the content of the cluster store, the database
  record of each cluster identifier. Step 4: "Any dispatch failure aborts Start and
  returns the error; the node does not register itself in Database and does not start
  MembershipTracker". Step 5: "On success: add/refresh self NodeEntry in Database via CAS
  loop, seed MembershipTracker from Database.NodeEntries, start the heartbeat and watch
  loops". With no other writer between the read and the write, the compare-and-swap loop
  is one read and one write; a read that finds no record returns \<open>NotFound\<close>. The local
  record of having joined is set on success (scenario 3: after a restart \<open>Start\<close>
  dispatches \<open>Join\<close> instead of \<open>Init\<close>).
\<close>

definition ClusterManager_Start ::
  "(('kv, 'node, 'st) Manager, string \<rightharpoonup> 'st Database) meth" where
  "ClusterManager_Start m store =
     (case setup_phase m of
        (Some e, r) \<Rightarrow> (Some e, m\<lparr>registry := r\<rparr>, store)
      | (None, r) \<Rightarrow>
          (case store (ClusterId (config m)) of
             None \<Rightarrow> (Some (Error ''NotFound''), m\<lparr>registry := r\<rparr>, store)
           | Some d \<Rightarrow>
               (let d' = d\<lparr>NodeEntries := (NodeEntries d)(NodeId (config m) \<mapsto> self_entry m)\<rparr>
                in (None,
                    m\<lparr>registry := r, joined_before := True,
                      tracker := \<lparr>seeded = NodeEntries d', running = True\<rparr>\<rparr>,
                    store(ClusterId (config m) \<mapsto> d')))))"

text \<open>
  Modelled from the spec: the setup callbacks \<open>Start\<close> has to deliver, in order, as pairs of
  a listener and an event: for each setup event of the node's role (steps 1 to 3), every
  registered listener in registration order.
\<close>

definition setup_events :: "('kv, 'node, 'st) Manager \<Rightarrow> setup_event list" where
  "setup_events m =
     (if leader m then [EvClusterInit, EvJoin]
      else if \<not> joined_before m then [EvInit]
      else [EvJoin])"

definition setup_calls ::
  "('kv, 'node, 'st) Manager \<Rightarrow> (('node, 'st) ClusterListener \<times> setup_event) list" where
  "setup_calls m =
     concat (map (\<lambda>ev. map (\<lambda>l. (l, ev)) (listeners (registry m))) (setup_events m))"

text \<open>
  Delivering a list of setup callbacks until the first error: \<open>setup_phase\<close> is this
  function on \<open>setup_calls\<close> (lemma \<open>setup_phase_calls\<close>).
\<close>

fun dispatch_calls ::
  "'node \<Rightarrow> 'st Database \<Rightarrow> (('node, 'st) ClusterListener \<times> setup_event) list \<Rightarrow>
   ('node, 'st) ListenerRegistry \<Rightarrow> error option \<times> ('node, 'st) ListenerRegistry" where
  "dispatch_calls me d [] r = (None, r)"
| "dispatch_calls me d ((l, ev) # cs) r =
     (let r1 = r\<lparr>delivered := delivered r @ [(String l, Setup ev)]\<rparr>
      in case setup_call me d ev l of
           Some e \<Rightarrow> (Some e, r1)
         | None \<Rightarrow> dispatch_calls me d cs r1)"

text \<open>
  Modelled from the spec: the forwarding of a membership event into the registry
  (section 4.4, step 5: "begin forwarding MembershipTracker events into
  ListenerRegistry"; \<open>Leave\<close> is dispatched by \<open>Shutdown\<close>). The forwarding is missing from
  the sources. It dispatches the event and does nothing else: a listener's error "does
  not alter Database".
\<close>

definition Dispatch ::
  "'node member_event \<Rightarrow> ('node, 'st) ListenerRegistry \<Rightarrow> ('node, 'st) ListenerRegistry" where
  "Dispatch ev r =
     (case ev of
        EvAdd n \<Rightarrow> DispatchAdd n r
      | EvUpdate n \<Rightarrow> DispatchUpdate n r
      | EvRemove n \<Rightarrow> DispatchRemove n r
      | EvLeave n \<Rightarrow> DispatchLeave n r)"

definition forward_event ::
  "'node member_event \<Rightarrow> ('kv, 'node, 'st) Manager \<Rightarrow> (string \<rightharpoonup> 'st Database) \<Rightarrow>
   ('kv, 'node, 'st) Manager \<times> (string \<rightharpoonup> 'st Database)" where
  "forward_event ev m store = (m\<lparr>registry := Dispatch ev (registry m)\<rparr>, store)"

text \<open>
  The order in which the listeners of a list receive a membership event.
\<close>

definition dispatch_order ::
  "'node member_event \<Rightarrow> ('node, 'st) ClusterListener list \<Rightarrow> ('node, 'st) ClusterListener list" where
  "dispatch_order ev ls = (case ev of EvLeave n \<Rightarrow> rev ls | _ \<Rightarrow> ls)"

text \<open>
  Registering the listeners of a list, one after the other.
\<close>

fun RegisterAll ::
  "('node, 'st) ClusterListener list \<Rightarrow> ('node, 'st) ListenerRegistry \<Rightarrow>
   registry_error + ('node, 'st) ListenerRegistry" where
  "RegisterAll [] r = Inr r"
| "RegisterAll (l # ls) r =
     (case Register l r of
        Inl e \<Rightarrow> Inl e
      | Inr r' \<Rightarrow> RegisterAll ls r')"

subsection \<open>A concrete instance\<close>

text \<open>
  Listeners over nodes named by strings: \<open>accepting\<close> returns no error from any method,
  \<open>rejecting\<close> returns an error from every method.
\<close>

definition accepting :: "string \<Rightarrow> (string, nat) ClusterListener" where
  "accepting name =
     \<lparr>String = name,
      ClusterInit = (\<lambda>n d. None), Init = (\<lambda>n d. None), Join = (\<lambda>n d. None),
      Add = (\<lambda>n. None), Remove = (\<lambda>n. None), Update = (\<lambda>n. None), Leave = (\<lambda>n. None)\<rparr>"

definition rejecting :: "string \<Rightarrow> (string, nat) ClusterListener" where
  "rejecting name =
     \<lparr>String = name,
      ClusterInit = (\<lambda>n d. Some (Error (name @ '' failed''))),
      Init = (\<lambda>n d. Some (Error (name @ '' failed''))),
      Join = (\<lambda>n d. Some (Error (name @ '' failed''))),
      Add = (\<lambda>n. Some (Error (name @ '' failed''))),
      Remove = (\<lambda>n. Some (Error (name @ '' failed''))),
      Update = (\<lambda>n. Some (Error (name @ '' failed''))),
      Leave = (\<lambda>n. Some (Error (name @ '' failed'')))\<rparr>"

definition empty_registry :: "(string, nat) ListenerRegistry" where
  "empty_registry = \<lparr>listeners = [], delivered = [], failures = []\<rparr>"

definition db1 :: "nat Database" where
  "db1 = \<lparr>Status = 0, Id = ''c1'',
          NodeEntries = [''n1'' \<mapsto> \<lparr>NodeEntry.Id = ''n1'', Ip = ''10.0.0.1''\<rparr>]\<rparr>"

definition store1 :: "string \<rightharpoonup> nat Database" where
  "store1 = [''c1'' \<mapsto> db1]"

text \<open>
  Node \<open>n2\<close> joining cluster \<open>c1\<close> for the first time, with the listeners \<open>A\<close>, \<open>B\<close>, \<open>C\<close>
  registered in this order, of which \<open>B\<close> rejects.
\<close>

definition joiner :: "(unit, string, nat) Manager" where
  "joiner =
     \<lparr>config = \<lparr>ClusterId = ''c1'', NodeId = ''n2''\<rparr>, kv = (),
      self = ''n2'', self_entry = \<lparr>NodeEntry.Id = ''n2'', Ip = ''10.0.0.2''\<rparr>,
      leader = False, joined_before = False, db = db1,
      registry = \<lparr>listeners = [accepting ''A'', rejecting ''B'', accepting ''C''],
                  delivered = [], failures = []\<rparr>,
      tracker = \<lparr>seeded = Map.empty, running = False\<rparr>\<rparr>"

section \<open>The singleton: theorems\<close>

lemma invoke_inst: "inst (snd (invoke mth p s)) = inst s"
  by (simp add: invoke_def split: prod.splits)

lemma invoke_fst: "fst (invoke mth p s) = fst (mth (heap s p) (world s))"
  by (simp add: invoke_def split: prod.splits)

text \<open>
  C7. While the singleton is nil, the package-level \<open>Start\<close> returns the error
  "Cluster is not initialized." and leaves the whole package state (heap and world
  included) as it was, whatever the manager's \<open>Start\<close> method would do: the method is not
  called. \<open>Inst\<close> returns a nil pointer and the same error.
\<close>

theorem not_initialized_when_nil:
  assumes "inst s = None"
  shows "Start mStart s = (Some (Error ''Cluster is not initialized.''), s) \<and>
         Inst s = (None, Some (Error ''Cluster is not initialized.''))"
  using assms by (simp add: Start_def Inst_def not_initialized_def)

theorem not_initialized_when_nil_witness:
  "inst fresh_package = None \<and>
   Start count_ok fresh_package = (Some (Error ''Cluster is not initialized.''), fresh_package) \<and>
   world (snd (Start count_ok fresh_package)) = 0 \<and>
   Inst fresh_package = (None, Some (Error ''Cluster is not initialized.''))"
proof -
  have nil: "inst fresh_package = None"
    by (simp add: fresh_package_def)
  from not_initialized_when_nil [OF nil, of count_ok] nil show ?thesis
    by (simp add: fresh_package_def)
qed

lemma run_when_nil:
  "inst s = None \<Longrightarrow> run mStart cs s = (replicate (length cs) (Some not_initialized), s)"
proof (induction cs)
  case Nil
  then show ?case by simp
next
  case (Cons c cs)
  then show ?case
    by (cases c) (simp_all add: Start_def Inst_def)
qed

text \<open>
  C8. \<open>New\<close> builds the manager at a new address \<open>brk s\<close> and calls its \<open>Init\<close>. If \<open>Init\<close>
  returns no error, \<open>New\<close> returns that pointer and no error, the object at the pointer is
  the manager as \<open>Init\<close> left it, and \<open>Inst\<close> called next returns the same pointer and no
  error. If \<open>Init\<close> returns an error \<open>e\<close>, \<open>New\<close> returns \<open>(nil, e)\<close>, the singleton is nil
  afterwards, and \<open>Inst\<close> called next fails with "Cluster is not initialized.".
\<close>

theorem New_then_Inst:
  "(fst (mInit \<lparr>config = cfg, kv = k, \<dots> = z\<rparr> (world s)) = None \<longrightarrow>
      fst (New z mInit cfg k s) = (Some (brk s), None) \<and>
      inst (snd (New z mInit cfg k s)) = Some (brk s) \<and>
      heap (snd (New z mInit cfg k s)) (brk s) =
        fst (snd (mInit \<lparr>config = cfg, kv = k, \<dots> = z\<rparr> (world s))) \<and>
      Inst (snd (New z mInit cfg k s)) = (Some (brk s), None)) \<and>
   (fst (mInit \<lparr>config = cfg, kv = k, \<dots> = z\<rparr> (world s)) = Some e \<longrightarrow>
      fst (New z mInit cfg k s) = (None, Some e) \<and>
      inst (snd (New z mInit cfg k s)) = None \<and>
      Inst (snd (New z mInit cfg k s)) = (None, Some (Error ''Cluster is not initialized.'')))"
  by (cases "mInit \<lparr>config = cfg, kv = k, \<dots> = z\<rparr> (world s)")
     (simp add: New_def invoke_def Inst_def not_initialized_def Let_def)

theorem New_then_Inst_witness:
  "fst (New () count_ok cfg1 () fresh_package) = (Some 0, None) \<and>
   heap (snd (New () count_ok cfg1 () fresh_package)) 0 = \<lparr>config = cfg1, kv = ()\<rparr> \<and>
   Inst (snd (New () count_ok cfg1 () fresh_package)) = (Some 0, None) \<and>
   fst (New () count_fail cfg1 () fresh_package) = (None, Some (Error ''store unavailable'')) \<and>
   Inst (snd (New () count_fail cfg1 () fresh_package)) =
     (None, Some (Error ''Cluster is not initialized.''))"
  using New_then_Inst [of count_ok cfg1 "()" "()" fresh_package]
        New_then_Inst [of count_fail cfg1 "()" "()" fresh_package "Error ''store unavailable''"]
  by (simp add: count_ok_def count_fail_def fresh_package_def)

text \<open>
  C9. When the singleton is set (as a successful \<open>New\<close> leaves it) and the manager's
  \<open>Start\<close> method returns an error \<open>e\<close>, the package-level \<open>Start\<close> returns \<open>e\<close> and sets
  the singleton to nil: \<open>Inst\<close> then fails with "Cluster is not initialized.", and so does
  every call in any later sequence \<open>cs\<close> of \<open>Inst\<close> and package-level \<open>Start\<close> calls,
  whatever the \<open>Start\<close> method \<open>mStart'\<close> would do by then.
\<close>

theorem Start_failure_clears_singleton:
  assumes "inst s = Some p"
    and "fst (mStart (heap s p) (world s)) = Some e"
  shows "fst (Start mStart s) = Some e \<and>
         inst (snd (Start mStart s)) = None \<and>
         Inst (snd (Start mStart s)) = (None, Some (Error ''Cluster is not initialized.'')) \<and>
         fst (run mStart' cs (snd (Start mStart s))) =
           replicate (length cs) (Some (Error ''Cluster is not initialized.''))"
proof -
  obtain m w where call: "mStart (heap s p) (world s) = (Some e, m, w)"
    using assms(2) by (cases "mStart (heap s p) (world s)") auto
  have res: "Start mStart s = (Some e, s\<lparr>heap := (heap s)(p := m), world := w, inst := None\<rparr>)"
    using assms(1) call by (simp add: Start_def invoke_def)
  have nil: "inst (snd (Start mStart s)) = None"
    by (simp add: res)
  show ?thesis
    using nil res by (simp add: run_when_nil Inst_def not_initialized_def)
qed

theorem Start_failure_clears_singleton_witness:
  "fst (New () count_ok cfg1 () fresh_package) = (Some 0, None) \<and>
   fst (Start count_fail (snd (New () count_ok cfg1 () fresh_package))) =
     Some (Error ''store unavailable'') \<and>
   Inst (snd (Start count_fail (snd (New () count_ok cfg1 () fresh_package)))) =
     (None, Some (Error ''Cluster is not initialized.'')) \<and>
   fst (run count_ok [CallInst, CallStart, CallInst]
          (snd (Start count_fail (snd (New () count_ok cfg1 () fresh_package))))) =
     [Some (Error ''Cluster is not initialized.''), Some (Error ''Cluster is not initialized.''),
      Some (Error ''Cluster is not initialized.'')]"
proof -
  let ?s = "snd (New () count_ok cfg1 () fresh_package)"
  have new: "fst (New () count_ok cfg1 () fresh_package) = (Some 0, None)"
    by (simp add: New_def invoke_def count_ok_def fresh_package_def)
  have set: "inst ?s = Some 0"
    by (simp add: New_def invoke_def count_ok_def fresh_package_def)
  have fails: "fst (count_fail (heap ?s 0) (world ?s)) = Some (Error ''store unavailable'')"
    by (simp add: count_fail_def)
  from Start_failure_clears_singleton
         [where mStart = count_fail and mStart' = count_ok and s = "?s" and p = 0
            and cs = "[CallInst, CallStart, CallInst]", OF set fails]
    new
  show ?thesis by (simp del: run.simps)
qed

section \<open>The btrfs driver: theorems\<close>

lemma Create_accepts_btrfs_example:
  "Create logging_deps () () (Some \<lparr>VolumeSpec.Format = ''btrfs''\<rparr>) [] =
     Some ((''6fa459ea'', None),
       [''uuidgen'', ''time.Now'', ''time.Now'', ''CreateVol'', ''btrfs.Create'', ''btrfs.Get'',
        ''UpdateVol''])"
  by (simp add: Create_def uuid_def TrimSuffix_def logging_deps_def)

text \<open>
  C10. When the format of the volume spec is neither \<open>api.FsBtrfs\<close> nor the empty string,
  \<open>Create\<close> returns \<open>api.BadVolumeID\<close> with the error
  "Filesystem format (<format>) must be <FsBtrfs>", and the world is as before the call,
  whatever \<open>uuidgen\<close>, the clock, \<open>CreateVol\<close>, \<open>UpdateVol\<close> and the btrfs graph driver
  do: none of them is called, so no volume identifier is generated and no volume record
  or subvolume is created.
\<close>

theorem Create_rejects_format:
  assumes "VolumeSpec.Format sp \<noteq> FsBtrfs d"
    and "VolumeSpec.Format sp \<noteq> []"
  shows "Create d locator options (Some sp) w =
           Some ((BadVolumeID d,
                  Some (Error (''Filesystem format ('' @ VolumeSpec.Format sp @ '') must be '' @
                               FsBtrfs d))), w)"
  using assms by (simp add: Create_def format_error_def)

theorem Create_rejects_format_witness:
  "VolumeSpec.Format \<lparr>VolumeSpec.Format = ''ext4''\<rparr> \<noteq> FsBtrfs logging_deps \<and>
   VolumeSpec.Format \<lparr>VolumeSpec.Format = ''ext4''\<rparr> \<noteq> [] \<and>
   Create logging_deps () () (Some \<lparr>VolumeSpec.Format = ''ext4''\<rparr>) [] =
     Some (([], Some (Error ''Filesystem format (ext4) must be btrfs'')), [])"
proof -
  have a: "VolumeSpec.Format \<lparr>VolumeSpec.Format = ''ext4''\<rparr> \<noteq> FsBtrfs logging_deps"
    by (simp add: logging_deps_def)
  have b: "VolumeSpec.Format \<lparr>VolumeSpec.Format = ''ext4''\<rparr> \<noteq> []"
    by simp
  from Create_rejects_format [OF a b, of "()" "()" "[]"] a b show ?thesis
    by (simp add: logging_deps_def)
qed

section \<open>The registry and the manager's Start: theorems\<close>

lemma dispatch_setup_calls:
  "dispatch_setup me d ev ls r = dispatch_calls me d (map (\<lambda>l. (l, ev)) ls) r"
  by (induction ls arbitrary: r) (simp_all add: Let_def split: option.splits)

lemma dispatch_calls_append:
  "dispatch_calls me d (xs @ ys) r =
     (case dispatch_calls me d xs r of
        (Some e, r') \<Rightarrow> (Some e, r')
      | (None, r') \<Rightarrow> dispatch_calls me d ys r')"
proof (induction xs arbitrary: r)
  case Nil
  show ?case by simp
next
  case (Cons c xs)
  obtain l ev where c: "c = (l, ev)" by (cases c)
  show ?case
    by (cases "setup_call me d ev l") (simp_all add: c Cons.IH Let_def)
qed

lemma dispatch_calls_listeners:
  "listeners (snd (dispatch_calls me d cs r)) = listeners r"
proof (induction cs arbitrary: r)
  case Nil
  show ?case by simp
next
  case (Cons c cs)
  obtain l ev where c: "c = (l, ev)" by (cases c)
  show ?case
    by (cases "setup_call me d ev l") (simp_all add: c Cons.IH Let_def)
qed

lemma setup_phase_calls:
  "setup_phase m = dispatch_calls (self m) (db m) (setup_calls m) (registry m)"
proof -
  let ?ls = "listeners (registry m)"
  let ?ci = "dispatch_calls (self m) (db m) (map (\<lambda>l. (l, EvClusterInit)) ?ls) (registry m)"
  have same: "listeners (snd ?ci) = ?ls"
    by (rule dispatch_calls_listeners)
  show ?thesis
  proof (cases "leader m")
    case True
    obtain err r where ci: "?ci = (err, r)" by (cases ?ci)
    with same have "listeners r = ?ls" by simp
    with True ci show ?thesis
      by (cases err)
         (simp_all add: setup_phase_def setup_calls_def setup_events_def DispatchClusterInit_def
            DispatchJoin_def dispatch_setup_calls dispatch_calls_append)
  next
    case False
    then show ?thesis
      by (simp add: setup_phase_def setup_calls_def setup_events_def DispatchInit_def
            DispatchJoin_def dispatch_setup_calls)
  qed
qed

lemma dispatch_calls_abort:
  assumes "\<forall>(x, ev') \<in> set pre. setup_call me d ev' x = None"
    and "setup_call me d ev l = Some e"
  shows "dispatch_calls me d (pre @ (l, ev) # post) r =
           (Some e, r\<lparr>delivered := delivered r @
                        map (\<lambda>(x, ev'). (String x, Setup ev')) (pre @ [(l, ev)])\<rparr>)"
  using assms
proof (induction pre arbitrary: r)
  case Nil
  then show ?case by simp
next
  case (Cons c pre)
  obtain x ev' where c: "c = (x, ev')" by (cases c)
  from Cons.prems have ok: "setup_call me d ev' x = None"
    and rest: "\<forall>(x, ev') \<in> set pre. setup_call me d ev' x = None"
    by (simp_all add: c)
  show ?case
    by (simp add: c ok Let_def Cons.IH [OF rest Cons.prems(2)])
qed

text \<open>
  C3. Let the setup callbacks that \<open>Start\<close> has to deliver be \<open>pre\<close>, then the call of
  listener \<open>l\<close> for event \<open>ev\<close>, then \<open>post\<close>; let every callback of \<open>pre\<close> succeed and the
  call of \<open>l\<close> return the error \<open>e\<close>. Then \<open>Start\<close> returns \<open>e\<close>; the callbacks delivered
  are those of \<open>pre\<close> and the failing one, so none of \<open>post\<close> is dispatched; the cluster
  store is as before (the node's entry is not added to the database); and the manager
  is as before but for the record of delivered callbacks, so the tracker is neither
  seeded nor started.
\<close>

theorem Start_aborts_on_listener_error:
  assumes "setup_calls m = pre @ (l, ev) # post"
    and "\<forall>(x, ev') \<in> set pre. setup_call (self m) (db m) ev' x = None"
    and "setup_call (self m) (db m) ev l = Some e"
  shows "ClusterManager_Start m store =
           (Some e,
            m\<lparr>registry := (registry m)\<lparr>delivered := delivered (registry m) @
                 map (\<lambda>(x, ev'). (String x, Setup ev')) (pre @ [(l, ev)])\<rparr>\<rparr>,
            store) \<and>
         tracker (fst (snd (ClusterManager_Start m store))) = tracker m \<and>
         snd (snd (ClusterManager_Start m store)) = store"
proof -
  have "setup_phase m =
          (Some e, (registry m)\<lparr>delivered := delivered (registry m) @
                     map (\<lambda>(x, ev'). (String x, Setup ev')) (pre @ [(l, ev)])\<rparr>)"
    unfolding setup_phase_calls assms(1)
    by (rule dispatch_calls_abort [OF assms(2) assms(3)])
  then show ?thesis
    by (simp add: ClusterManager_Start_def)
qed

theorem Start_aborts_on_listener_error_witness:
  "fst (ClusterManager_Start joiner store1) = Some (Error ''B failed'') \<and>
   delivered (registry (fst (snd (ClusterManager_Start joiner store1)))) =
     [(''A'', Setup EvInit), (''B'', Setup EvInit)] \<and>
   running (tracker (fst (snd (ClusterManager_Start joiner store1)))) = False \<and>
   snd (snd (ClusterManager_Start joiner store1)) = store1"
proof -
  have calls: "setup_calls joiner =
      [(accepting ''A'', EvInit)] @ (rejecting ''B'', EvInit) # [(accepting ''C'', EvInit)]"
    by (simp add: setup_calls_def setup_events_def joiner_def)
  have ok: "\<forall>(x, ev') \<in> set [(accepting ''A'', EvInit)].
              setup_call (self joiner) (db joiner) ev' x = None"
    by (simp add: accepting_def)
  have bad: "setup_call (self joiner) (db joiner) EvInit (rejecting ''B'') =
               Some (Error ''B failed'')"
    by (simp add: rejecting_def)
  from Start_aborts_on_listener_error [OF calls ok bad, of store1] show ?thesis
    by (simp add: joiner_def accepting_def rejecting_def)
qed

lemma Start_joins_example:
  "fst (ClusterManager_Start (joiner\<lparr>registry := empty_registry\<lparr>listeners :=
          [accepting ''A'', accepting ''C'']\<rparr>\<rparr>) store1) = None \<and>
   running (tracker (fst (snd (ClusterManager_Start (joiner\<lparr>registry :=
          empty_registry\<lparr>listeners := [accepting ''A'', accepting ''C'']\<rparr>\<rparr>) store1)))) \<and>
   map_option (\<lambda>d. map_option Ip (NodeEntries d ''n2''))
     (snd (snd (ClusterManager_Start (joiner\<lparr>registry :=
          empty_registry\<lparr>listeners := [accepting ''A'', accepting ''C'']\<rparr>\<rparr>) store1)) ''c1'') =
     Some (Some ''10.0.0.2'')"
  by (simp add: ClusterManager_Start_def setup_phase_def DispatchInit_def joiner_def
        accepting_def store1_def db1_def empty_registry_def)

lemma dispatch_member_listeners:
  "listeners (dispatch_member ev ls r) = listeners r"
  by (induction ls arbitrary: r) simp_all

lemma dispatch_member_delivered:
  "delivered (dispatch_member ev ls r) =
     delivered r @ map (\<lambda>l. (String l, Member ev)) ls"
  by (induction ls arbitrary: r) simp_all

lemma dispatch_member_failures_mono:
  "set (failures r) \<subseteq> set (failures (dispatch_member ev ls r))"
proof (induction ls arbitrary: r)
  case Nil
  show ?case by simp
next
  case (Cons l ls)
  let ?r1 = "r\<lparr>delivered := delivered r @ [(String l, Member ev)],
                failures := (case member_call ev l of
                               None \<Rightarrow> failures r
                             | Some e \<Rightarrow> failures r @ [(String l, ev, e)])\<rparr>"
  have "set (failures r) \<subseteq> set (failures ?r1)"
    by (auto split: option.splits)
  also have "\<dots> \<subseteq> set (failures (dispatch_member ev ls ?r1))"
    by (rule Cons.IH)
  finally show ?case by simp
qed

lemma dispatch_member_records_failure:
  assumes "l \<in> set ls" and "member_call ev l = Some e"
  shows "(String l, ev, e) \<in> set (failures (dispatch_member ev ls r))"
  using assms(1)
proof (induction ls arbitrary: r)
  case Nil
  then show ?case by simp
next
  case (Cons x ls)
  let ?r1 = "r\<lparr>delivered := delivered r @ [(String x, Member ev)],
                failures := (case member_call ev x of
                               None \<Rightarrow> failures r
                             | Some e \<Rightarrow> failures r @ [(String x, ev, e)])\<rparr>"
  show ?case
  proof (cases "l = x")
    case True
    then have "(String l, ev, e) \<in> set (failures ?r1)"
      using assms(2) by simp
    then show ?thesis
      using dispatch_member_failures_mono [of ?r1 ev ls] by auto
  next
    case False
    with Cons.prems have "l \<in> set ls" by simp
    then show ?thesis
      using Cons.IH by simp
  qed
qed

lemma Dispatch_order:
  "Dispatch ev r = dispatch_member ev (dispatch_order ev (listeners r)) r"
  by (cases ev)
     (simp_all add: Dispatch_def dispatch_order_def DispatchAdd_def DispatchUpdate_def
        DispatchRemove_def DispatchLeave_def)

lemma set_dispatch_order: "set (dispatch_order ev ls) = set ls"
  by (cases ev) (simp_all add: dispatch_order_def)

text \<open>
  C4. Let \<open>l\<close> be a registered listener that returns the error \<open>e\<close> for the steady-state
  membership event \<open>ev\<close> (an \<open>Add\<close>, \<open>Update\<close>, \<open>Remove\<close> or \<open>Leave\<close>). When the event is
  forwarded, the error is recorded in the failure log with the listener's name and the
  event; the event is delivered to every registered listener, once each, the failing
  one and the ones after it included; and the cluster store, the database the manager
  recorded and the tracker are as before.
\<close>

theorem listener_failure_is_isolated:
  assumes "l \<in> set (listeners (registry m))"
    and "member_call ev l = Some e"
  shows "(String l, ev, e) \<in> set (failures (registry (fst (forward_event ev m store)))) \<and>
         delivered (registry (fst (forward_event ev m store))) =
           delivered (registry m) @
           map (\<lambda>x. (String x, Member ev)) (dispatch_order ev (listeners (registry m))) \<and>
         set (dispatch_order ev (listeners (registry m))) = set (listeners (registry m)) \<and>
         length (dispatch_order ev (listeners (registry m))) = length (listeners (registry m)) \<and>
         snd (forward_event ev m store) = store \<and>
         db (fst (forward_event ev m store)) = db m \<and>
         tracker (fst (forward_event ev m store)) = tracker m"
proof -
  have "l \<in> set (dispatch_order ev (listeners (registry m)))"
    using assms(1) by (simp add: set_dispatch_order)
  then have "(String l, ev, e) \<in>
      set (failures (dispatch_member ev (dispatch_order ev (listeners (registry m))) (registry m)))"
    using assms(2) by (rule dispatch_member_records_failure)
  moreover have "length (dispatch_order ev (listeners (registry m))) = length (listeners (registry m))"
    by (cases ev) (simp_all add: dispatch_order_def)
  ultimately show ?thesis
    by (simp add: forward_event_def Dispatch_order dispatch_member_delivered set_dispatch_order)
qed

theorem listener_failure_is_isolated_witness:
  "rejecting ''B'' \<in> set (listeners (registry joiner)) \<and>
   member_call (EvAdd ''n3'') (rejecting ''B'') = Some (Error ''B failed'') \<and>
   (''B'', EvAdd ''n3'', Error ''B failed'') \<in>
      set (failures (registry (fst (forward_event (EvAdd ''n3'') joiner store1)))) \<and>
   delivered (registry (fst (forward_event (EvAdd ''n3'') joiner store1))) =
     [(''A'', Member (EvAdd ''n3'')), (''B'', Member (EvAdd ''n3'')),
      (''C'', Member (EvAdd ''n3''))] \<and>
   snd (forward_event (EvAdd ''n3'') joiner store1) = store1 \<and>
   db (fst (forward_event (EvAdd ''n3'') joiner store1)) = db1"
proof -
  have reg: "rejecting ''B'' \<in> set (listeners (registry joiner))"
    by (simp add: joiner_def)
  have bad: "member_call (EvAdd ''n3'') (rejecting ''B'') = Some (Error ''B failed'')"
    by (simp add: rejecting_def)
  from listener_failure_is_isolated [OF reg bad, of store1] reg bad show ?thesis
    by (simp add: joiner_def dispatch_order_def accepting_def rejecting_def)
qed

text \<open>
  C5. For every registry, an \<open>Add\<close> and an \<open>Update\<close> event are delivered to the
  registered listeners in registration order, and a \<open>Leave\<close> event in the reverse of the
  registration order: for listeners registered as \<open>A\<close>, \<open>B\<close>, \<open>C\<close> the deliveries are
  \<open>A\<close>, \<open>B\<close>, \<open>C\<close> and \<open>C\<close>, \<open>B\<close>, \<open>A\<close>. Registration appends to the list, so the list
  order is the insertion order.
\<close>

theorem dispatch_in_registration_order:
  "delivered (DispatchAdd n r) =
     delivered r @ map (\<lambda>l. (String l, Member (EvAdd n))) (listeners r) \<and>
   delivered (DispatchUpdate n r) =
     delivered r @ map (\<lambda>l. (String l, Member (EvUpdate n))) (listeners r) \<and>
   delivered (DispatchLeave n r) =
     delivered r @ map (\<lambda>l. (String l, Member (EvLeave n))) (rev (listeners r))"
  by (simp add: DispatchAdd_def DispatchUpdate_def DispatchLeave_def dispatch_member_delivered)

lemma Register_appends:
  "Register l r = Inr r' \<Longrightarrow> listeners r' = listeners r @ [l]"
  by (auto simp: Register_def split: if_splits)

lemma RegisterAll_ABC:
  "RegisterAll [accepting ''A'', rejecting ''B'', accepting ''C''] empty_registry =
     Inr \<lparr>listeners = [accepting ''A'', rejecting ''B'', accepting ''C''],
          delivered = [], failures = []\<rparr>"
  by (simp add: Register_def empty_registry_def accepting_def rejecting_def)

theorem dispatch_in_registration_order_witness:
  "delivered (DispatchAdd ''n3'' (registry joiner)) =
     [(''A'', Member (EvAdd ''n3'')), (''B'', Member (EvAdd ''n3'')),
      (''C'', Member (EvAdd ''n3''))] \<and>
   delivered (DispatchUpdate ''n3'' (registry joiner)) =
     [(''A'', Member (EvUpdate ''n3'')), (''B'', Member (EvUpdate ''n3'')),
      (''C'', Member (EvUpdate ''n3''))] \<and>
   delivered (DispatchLeave ''n2'' (registry joiner)) =
     [(''C'', Member (EvLeave ''n2'')), (''B'', Member (EvLeave ''n2'')),
      (''A'', Member (EvLeave ''n2''))]"
  using dispatch_in_registration_order [of "''n3''" "registry joiner"]
        dispatch_in_registration_order [of "''n2''" "registry joiner"]
  by (simp add: joiner_def accepting_def rejecting_def)

end
